theory Spec2Isabelle
  imports Complex_Main "HOL-Library.AList"
begin

section \<open>JavaScript numbers\<close>

text \<open>
  The collector stores and subtracts JavaScript numbers. A number is a finite value,
  one of the two infinities, or NaN. Finite values are exact rationals here: the
  millisecond timestamps of the tests are integers far below \<open>2^53\<close>, where the
  arithmetic of the source is exact; the rounding of IEEE doubles and the sign of
  zero are not part of the model.
\<close>

datatype jsnum = Fin rat | PInf | NInf | NaN

text \<open>The binary \<^verbatim>\<open>-\<close> of the source.\<close>

fun js_sub :: "jsnum \<Rightarrow> jsnum \<Rightarrow> jsnum" where
  "js_sub NaN y = NaN"
| "js_sub x NaN = NaN"
| "js_sub (Fin a) (Fin b) = Fin (a - b)"
| "js_sub (Fin a) PInf = NInf"
| "js_sub (Fin a) NInf = PInf"
| "js_sub PInf PInf = NaN"
| "js_sub PInf y = PInf"
| "js_sub NInf NInf = NaN"
| "js_sub NInf y = NInf"

text \<open>The binary \<^verbatim>\<open>/\<close> of the source (used for averages).\<close>

fun js_div :: "jsnum \<Rightarrow> jsnum \<Rightarrow> jsnum" where
  "js_div (Fin a) (Fin b) =
     (if b = 0 then (if a = 0 then NaN else if 0 < a then PInf else NInf)
      else Fin (a / b))"
| "js_div NaN y = NaN"
| "js_div x NaN = NaN"
| "js_div (Fin a) y = Fin 0"
| "js_div PInf (Fin b) = (if 0 \<le> b then PInf else NInf)"
| "js_div NInf (Fin b) = (if 0 \<le> b then NInf else PInf)"
| "js_div x y = NaN"

text \<open>Comparisons: every comparison with NaN is false.\<close>

fun js_gt :: "jsnum \<Rightarrow> jsnum \<Rightarrow> bool" where
  "js_gt NaN y = False"
| "js_gt x NaN = False"
| "js_gt (Fin a) (Fin b) = (b < a)"
| "js_gt PInf y = (y \<noteq> PInf)"
| "js_gt x NInf = (x \<noteq> NInf)"
| "js_gt x y = False"

fun js_le :: "jsnum \<Rightarrow> jsnum \<Rightarrow> bool" where
  "js_le NaN y = False"
| "js_le x NaN = False"
| "js_le (Fin a) (Fin b) = (a \<le> b)"
| "js_le NInf y = True"
| "js_le x PInf = True"
| "js_le x y = False"

text \<open>Truthiness of a number: \<open>0\<close> and NaN are falsy.\<close>

fun truthy :: "jsnum \<Rightarrow> bool" where
  "truthy (Fin a) = (a \<noteq> 0)"
| "truthy NaN = False"
| "truthy PInf = True"
| "truthy NInf = True"

text \<open>The idiom \<^verbatim>\<open>x || 0\<close> on a number \<open>x\<close>.\<close>

definition or0 :: "jsnum \<Rightarrow> jsnum" where
  "or0 x = (if truthy x then x else Fin 0)"

text \<open>
  The idiom \<^verbatim>\<open>obj.field || 0\<close> where the property may be absent: reading an
  absent property gives \<^verbatim>\<open>undefined\<close>, which is falsy.
\<close>

fun or0_field :: "jsnum option \<Rightarrow> jsnum" where
  "or0_field None = Fin 0"
| "or0_field (Some x) = or0 x"


section \<open>PerformanceMetricsCollector\<close>

text \<open>
  The object stored per request. \<^verbatim>\<open>captureRequestStart\<close> creates it with
  thirteen numeric properties; \<^verbatim>\<open>finalizeRequest\<close> adds \<^verbatim>\<open>dns\<close>,
  \<^verbatim>\<open>tcp\<close>, \<^verbatim>\<open>ssl\<close>, \<^verbatim>\<open>ttfb\<close> and \<^verbatim>\<open>download\<close>, which are absent (\<open>None\<close>)
  before. The property \<^verbatim>\<open>total\<close> is the field \<open>total_ms\<close>.
\<close>

record metric =
  startTime :: jsnum
  dnsStart :: jsnum
  dnsEnd :: jsnum
  connectStart :: jsnum
  connectEnd :: jsnum
  sslStart :: jsnum
  sslEnd :: jsnum
  sendStart :: jsnum
  sendEnd :: jsnum
  receiveStart :: jsnum
  receiveEnd :: jsnum
  endTime :: jsnum
  total_ms :: jsnum
  dns :: "jsnum option"
  tcp :: "jsnum option"
  ssl :: "jsnum option"
  ttfb :: "jsnum option"
  download :: "jsnum option"

text \<open>
  The \<^verbatim>\<open>timing\<close> argument of \<^verbatim>\<open>updateRequestTiming\<close>: \<^verbatim>\<open>undefined\<close>,
  \<^verbatim>\<open>null\<close>, or an object holding any subset of the ten phase timestamps.
\<close>

record timing =
  t_dnsStart :: "jsnum option"
  t_dnsEnd :: "jsnum option"
  t_connectStart :: "jsnum option"
  t_connectEnd :: "jsnum option"
  t_sslStart :: "jsnum option"
  t_sslEnd :: "jsnum option"
  t_sendStart :: "jsnum option"
  t_sendEnd :: "jsnum option"
  t_receiveStart :: "jsnum option"
  t_receiveEnd :: "jsnum option"

datatype timing_arg = Undefined | Null | Timing timing

definition no_timing :: timing where
  "no_timing = \<lparr> t_dnsStart = None, t_dnsEnd = None, t_connectStart = None,
     t_connectEnd = None, t_sslStart = None, t_sslEnd = None, t_sendStart = None,
     t_sendEnd = None, t_receiveStart = None, t_receiveEnd = None \<rparr>"

text \<open>
  The collector. The JavaScript \<^verbatim>\<open>Map\<close> is an association list in insertion order:
  \<^verbatim>\<open>set\<close> is \<^const>\<open>AList.update\<close> (replace in place, or append), \<^verbatim>\<open>get\<close> is
  \<^const>\<open>map_of\<close>, \<^verbatim>\<open>delete\<close> is \<^const>\<open>AList.delete\<close>.
\<close>

record collector =
  enabled :: bool
  samplingRate :: jsnum
  metrics :: "(string \<times> metric) list"
  retentionPeriod :: jsnum

definition new_collector :: "bool \<Rightarrow> jsnum \<Rightarrow> jsnum \<Rightarrow> collector" where
  "new_collector en rate period =
     \<lparr> enabled = en, samplingRate = rate, metrics = [], retentionPeriod = period \<rparr>"

text \<open>
  \<^verbatim>\<open>shouldCapture\<close>; \<open>rnd\<close> is the value \<^verbatim>\<open>Math.random()\<close> returns, a number
  with \<open>0 \<le> rnd < 1\<close>.
\<close>

definition shouldCapture :: "collector \<Rightarrow> rat \<Rightarrow> bool" where
  "shouldCapture c rnd = (enabled c \<and> js_le (Fin (rnd * 100)) (samplingRate c))"

definition fresh_metric :: "jsnum \<Rightarrow> metric" where
  "fresh_metric timestamp =
     \<lparr> startTime = timestamp, dnsStart = Fin 0, dnsEnd = Fin 0, connectStart = Fin 0,
       connectEnd = Fin 0, sslStart = Fin 0, sslEnd = Fin 0, sendStart = Fin 0,
       sendEnd = Fin 0, receiveStart = Fin 0, receiveEnd = Fin 0, endTime = Fin 0,
       total_ms = Fin 0, dns = None, tcp = None, ssl = None, ttfb = None,
       download = None \<rparr>"

definition captureRequestStart :: "string \<Rightarrow> jsnum \<Rightarrow> rat \<Rightarrow> collector \<Rightarrow> collector" where
  "captureRequestStart requestId timestamp rnd c =
     (if \<not> shouldCapture c rnd then c
      else c\<lparr>metrics := AList.update requestId (fresh_metric timestamp) (metrics c)\<rparr>)"

definition apply_timing :: "timing \<Rightarrow> metric \<Rightarrow> metric" where
  "apply_timing t m =
     m\<lparr> dnsStart := or0_field (t_dnsStart t),
        dnsEnd := or0_field (t_dnsEnd t),
        connectStart := or0_field (t_connectStart t),
        connectEnd := or0_field (t_connectEnd t),
        sslStart := or0_field (t_sslStart t),
        sslEnd := or0_field (t_sslEnd t),
        sendStart := or0_field (t_sendStart t),
        sendEnd := or0_field (t_sendEnd t),
        receiveStart := or0_field (t_receiveStart t),
        receiveEnd := or0_field (t_receiveEnd t) \<rparr>"

text \<open>
  \<^verbatim>\<open>updateRequestTiming\<close>. No statement of the source on this path can throw
  (\<^verbatim>\<open>Map.has\<close>, \<^verbatim>\<open>Map.get\<close>, a truthiness test, property reads on a truthy
  value), so the result is the new collector and there is no error branch.
\<close>

definition updateRequestTiming :: "string \<Rightarrow> timing_arg \<Rightarrow> collector \<Rightarrow> collector" where
  "updateRequestTiming requestId tm c =
     (case map_of (metrics c) requestId of
        None \<Rightarrow> c
      | Some m \<Rightarrow>
          (case tm of
             Timing t \<Rightarrow> c\<lparr>metrics := AList.update requestId (apply_timing t m) (metrics c)\<rparr>
           | Undefined \<Rightarrow> c
           | Null \<Rightarrow> c))"

definition finalize_metric :: "jsnum \<Rightarrow> metric \<Rightarrow> metric" where
  "finalize_metric e m =
     (let m1 = m\<lparr>endTime := e\<rparr>;
          m2 = m1\<lparr>dns := Some (or0 (js_sub (dnsEnd m1) (dnsStart m1)))\<rparr>;
          m3 = m2\<lparr>tcp := Some (or0 (js_sub (js_sub (connectEnd m2) (connectStart m2))
                                            (js_sub (sslEnd m2) (sslStart m2))))\<rparr>;
          m4 = m3\<lparr>ssl := Some (or0 (js_sub (sslEnd m3) (sslStart m3)))\<rparr>;
          m5 = m4\<lparr>ttfb := Some (or0 (js_sub (receiveStart m4) (sendEnd m4)))\<rparr>;
          m6 = m5\<lparr>download := Some (or0 (js_sub (receiveEnd m5) (receiveStart m5)))\<rparr>
      in m6\<lparr>total_ms := or0 (js_sub (endTime m6) (startTime m6))\<rparr>)"

text \<open>
  \<^verbatim>\<open>finalizeRequest\<close> returns \<^verbatim>\<open>undefined\<close> (\<open>None\<close>) for an unknown request,
  and otherwise the stored object itself, after mutating it.
\<close>

definition finalizeRequest :: "string \<Rightarrow> jsnum \<Rightarrow> collector \<Rightarrow> metric option \<times> collector" where
  "finalizeRequest requestId e c =
     (case map_of (metrics c) requestId of
        None \<Rightarrow> (None, c)
      | Some m \<Rightarrow>
          (let m' = finalize_metric e m
           in (Some m', c\<lparr>metrics := AList.update requestId m' (metrics c)\<rparr>)))"

definition getMetrics :: "string \<Rightarrow> collector \<Rightarrow> metric option" where
  "getMetrics requestId c = map_of (metrics c) requestId"

text \<open>
  \<^verbatim>\<open>cleanupOldMetrics\<close>; \<open>now\<close> is the value of \<^verbatim>\<open>Date.now()\<close>. The loop visits
  the entries of the map in order and deletes from the map as it goes; deleting the
  entry being visited does not disturb the iteration.
\<close>

fun cleanup_loop :: "jsnum \<Rightarrow> jsnum \<Rightarrow> (string \<times> metric) list \<Rightarrow> (string \<times> metric) list
    \<Rightarrow> (string \<times> metric) list" where
  "cleanup_loop now period [] ms = ms"
| "cleanup_loop now period ((requestId, m) # es) ms =
     cleanup_loop now period es
       (if js_gt (js_sub now (endTime m)) period then AList.delete requestId ms else ms)"

definition cleanupOldMetrics :: "jsnum \<Rightarrow> collector \<Rightarrow> collector" where
  "cleanupOldMetrics now c =
     c\<lparr>metrics := cleanup_loop now (retentionPeriod c) (metrics c) (metrics c)\<rparr>"


section \<open>Statements of the specification, and the scenarios of the test suite\<close>

text \<open>
  The value the specification gives a sub-metric: the timestamp difference when it is
  finite and not negative, and \<open>0\<close> otherwise.
\<close>

fun spec_clamped :: "jsnum \<Rightarrow> jsnum" where
  "spec_clamped (Fin a) = (if 0 \<le> a then Fin a else Fin 0)"
| "spec_clamped d = Fin 0"

text \<open>
  What \<^verbatim>\<open>updateRequestTiming\<close> stores in a phase field, read off a timing object:
  the value of a property that is present (NaN becoming \<open>0\<close>), and \<open>0\<close> for a
  property that is absent.
\<close>

fun stored_phase :: "jsnum option \<Rightarrow> jsnum" where
  "stored_phase None = Fin 0"
| "stored_phase (Some NaN) = Fin 0"
| "stored_phase (Some v) = v"

text \<open>The collector every test starts from, and \<^verbatim>\<open>"req1"\<close> captured at \<open>1000\<close>.\<close>

definition test_collector :: collector where
  "test_collector = new_collector True (Fin 100) (Fin 604800000)"

definition c_started :: collector where
  "c_started = captureRequestStart ''req1'' (Fin 1000) (1 / 2) test_collector"

text \<open>The timing object of the test \<^verbatim>\<open>should handle partial timing updates\<close>.\<close>

definition timing_dns_only :: timing where
  "timing_dns_only = no_timing\<lparr>t_dnsStart := Some (Fin 100)\<rparr>"

definition c_partial :: collector where
  "c_partial = updateRequestTiming ''req1'' (Timing timing_dns_only) c_started"

text \<open>The timing object of the test \<^verbatim>\<open>should update timing information\<close>.\<close>

definition timing_dns_connect :: timing where
  "timing_dns_connect = no_timing\<lparr>t_dnsStart := Some (Fin 100), t_dnsEnd := Some (Fin 150),
     t_connectStart := Some (Fin 150), t_connectEnd := Some (Fin 200)\<rparr>"

definition c_dns_connect :: collector where
  "c_dns_connect = updateRequestTiming ''req1'' (Timing timing_dns_connect) c_started"

definition timing_ssl_only :: timing where
  "timing_ssl_only = no_timing\<lparr>t_sslStart := Some (Fin 210)\<rparr>"

text \<open>The timing object of the tests of \<^verbatim>\<open>Finalize Request\<close>.\<close>

definition timing_full :: timing where
  "timing_full = no_timing\<lparr>t_dnsStart := Some (Fin 1000), t_dnsEnd := Some (Fin 1050),
     t_connectStart := Some (Fin 1050), t_connectEnd := Some (Fin 1150),
     t_sslStart := Some (Fin 1100), t_sslEnd := Some (Fin 1150),
     t_sendEnd := Some (Fin 1150), t_receiveStart := Some (Fin 1350),
     t_receiveEnd := Some (Fin 1450)\<rparr>"

definition c_timed :: collector where
  "c_timed = updateRequestTiming ''req1'' (Timing timing_full) c_started"

definition m_timed :: metric where
  "m_timed = \<lparr> startTime = Fin 1000, dnsStart = Fin 1000, dnsEnd = Fin 1050,
     connectStart = Fin 1050, connectEnd = Fin 1150, sslStart = Fin 1100,
     sslEnd = Fin 1150, sendStart = Fin 0, sendEnd = Fin 1150,
     receiveStart = Fin 1350, receiveEnd = Fin 1450, endTime = Fin 0,
     total_ms = Fin 0, dns = None, tcp = None, ssl = None, ttfb = None,
     download = None \<rparr>"


text \<open>
  The scenario of the test \<^verbatim>\<open>should remove old metrics\<close>, at the time
  \<open>now = 1700000000000\<close>: \<^verbatim>\<open>"old-req"\<close> is captured and finalized eight days
  before \<open>now\<close>, \<^verbatim>\<open>"recent-req"\<close> is captured at \<open>now\<close> and not finalized.
\<close>

definition sweep_now :: jsnum where
  "sweep_now = Fin 1700000000000"

definition sweep_old :: jsnum where
  "sweep_old = Fin (1700000000000 - 8 * 24 * 60 * 60 * 1000)"

definition c_sweep :: collector where
  "c_sweep =
     captureRequestStart ''recent-req'' sweep_now (1 / 2)
       (snd (finalizeRequest ''old-req'' sweep_old
          (captureRequestStart ''old-req'' sweep_old (1 / 2) test_collector)))"

text \<open>The collector of the test \<^verbatim>\<open>should respect sampling rate\<close>.\<close>

definition low_sample_collector :: collector where
  "low_sample_collector = new_collector True (Fin 0) (Fin 1000)"


section \<open>Aggregate statistics\<close>

text \<open>
  The computation of the test \<^verbatim>\<open>should calculate aggregate stats\<close> over an array of
  objects with a \<^verbatim>\<open>status\<close> and a \<^verbatim>\<open>responseTime\<close>.
\<close>

record request_stat =
  status :: int
  responseTime :: rat

definition totalRequests :: "request_stat list \<Rightarrow> nat" where
  "totalRequests requests = length requests"

definition successfulRequests :: "request_stat list \<Rightarrow> nat" where
  "successfulRequests requests =
     length (filter (\<lambda>r. 200 \<le> status r \<and> status r < 300) requests)"

definition avgResponseTime :: "request_stat list \<Rightarrow> jsnum" where
  "avgResponseTime requests =
     js_div (Fin (foldl (\<lambda>sum r. sum + responseTime r) 0 requests))
            (Fin (of_nat (length requests)))"

definition scenario_requests :: "request_stat list" where
  "scenario_requests =
     [\<lparr>status = 200, responseTime = 100\<rparr>,
      \<lparr>status = 200, responseTime = 200\<rparr>,
      \<lparr>status = 404, responseTime = 150\<rparr>]"

text \<open>
  Modelled from the spec: the GoldFact row and \<^verbatim>\<open>GoldAggregator.applyDelta\<close>, which are
  not in the sources (no source computes an error count). A row holds the counters and
  the sum of response times; \<^verbatim>\<open>applyDelta\<close> increments \<^verbatim>\<open>totalRequests\<close>, the
  status bucket of the record and \<^verbatim>\<open>sumResponseTime\<close>; \<^verbatim>\<open>avgResponseTime\<close> is not
  a field but derived as \<^verbatim>\<open>sumResponseTime/totalRequests\<close>. The success bucket is
  \<open>200 \<le> status < 300\<close>, as in the sources. The specification names an error bucket
  besides other status buckets without saying which statuses it holds; the model takes
  the HTTP error classes, \<open>400 \<le> status\<close>. Locating the row by domain and time bucket
  is left out: the three requests of the scenario share both.
\<close>

record gold_fact =
  g_totalRequests :: nat
  g_successCount :: nat
  g_errorCount :: nat
  g_sumResponseTime :: rat

definition empty_fact :: gold_fact where
  "empty_fact = \<lparr> g_totalRequests = 0, g_successCount = 0, g_errorCount = 0,
     g_sumResponseTime = 0 \<rparr>"

definition applyDelta :: "gold_fact \<Rightarrow> request_stat \<Rightarrow> gold_fact" where
  "applyDelta g r =
     g\<lparr> g_totalRequests := g_totalRequests g + 1,
        g_successCount :=
          (if 200 \<le> status r \<and> status r < 300 then g_successCount g + 1
           else g_successCount g),
        g_errorCount :=
          (if 400 \<le> status r then g_errorCount g + 1 else g_errorCount g),
        g_sumResponseTime := g_sumResponseTime g + responseTime r \<rparr>"

definition g_avgResponseTime :: "gold_fact \<Rightarrow> jsnum" where
  "g_avgResponseTime g =
     js_div (Fin (g_sumResponseTime g)) (Fin (of_nat (g_totalRequests g)))"


section \<open>Capture filter\<close>

text \<open>
  \<^verbatim>\<open>Array.prototype.includes\<close>, which the filtering tests apply to the include and
  exclude lists.
\<close>

fun includes_arr :: "'a list \<Rightarrow> 'a \<Rightarrow> bool" where
  "includes_arr [] x = False"
| "includes_arr (y # ys) x = (y = x \<or> includes_arr ys x)"

record capture_config =
  includeDomains :: "string list"
  excludeDomains :: "string list"
  includeTypes :: "string list"
  excludeTypes :: "string list"

text \<open>The attributes \<^verbatim>\<open>domain\<close> and \<^verbatim>\<open>type\<close> of a request.\<close>

record request_attrs =
  domain :: string
  type_r :: string

text \<open>
  Modelled from the spec: the decision function of the CaptureFilter, which is not in the
  sources (the tests apply \<^verbatim>\<open>includes\<close>, here \<open>includes_arr\<close>, to one list at a
  time and never combine the four lists). Capture is allowed iff the domain is not in \<^verbatim>\<open>excludeDomains\<close>, and
  \<^verbatim>\<open>includeDomains\<close> is empty or holds the domain, and the type is not in
  \<^verbatim>\<open>excludeTypes\<close>, and \<^verbatim>\<open>includeTypes\<close> is empty or holds the type.
\<close>

definition captureAllowed :: "capture_config \<Rightarrow> request_attrs \<Rightarrow> bool" where
  "captureAllowed cfg req =
     (\<not> includes_arr (excludeDomains cfg) (domain req)
      \<and> (length (includeDomains cfg) = 0 \<or> includes_arr (includeDomains cfg) (domain req))
      \<and> \<not> includes_arr (excludeTypes cfg) (type_r req)
      \<and> (length (includeTypes cfg) = 0 \<or> includes_arr (includeTypes cfg) (type_r req)))"

definition cfg_both :: capture_config where
  "cfg_both = \<lparr> includeDomains = [''example.com''], excludeDomains = [''example.com''],
     includeTypes = [''xmlhttprequest'', ''fetch''], excludeTypes = [''fetch''] \<rparr>"


section \<open>Bronze store\<close>

record bronze_record =
  b_id :: string
  b_url :: string
  b_method :: string
  b_domain :: string
  b_status :: int
  b_responseTime :: rat
  b_timestamp :: int
  b_rawHeaders :: "(string \<times> string) list"

datatype store_error = StorageError

text \<open>
  Modelled from the spec: \<^verbatim>\<open>BronzeStore.insert\<close>, which is not in the sources (the tests
  only mock a prepared statement). The store is the list of its rows in insertion
  order. An insert under a storage-layer error surfaces \<^verbatim>\<open>StorageError\<close>; \<open>storage_ok\<close>
  says whether the storage layer works for this call. Otherwise the insert succeeds: a
  record whose id is already stored leaves the store as it is, a record with a new id
  is appended.
\<close>

definition insert_bronze ::
    "bool \<Rightarrow> bronze_record \<Rightarrow> bronze_record list \<Rightarrow> store_error + bronze_record list" where
  "insert_bronze storage_ok r store =
     (if \<not> storage_ok then Inl StorageError
      else if includes_arr (map b_id store) (b_id r) then Inr store
      else Inr (store @ [r]))"

text \<open>
  The duplicate handling of the test \<^verbatim>\<open>should handle import conflicts\<close>: the ids of the
  existing requests are collected in a \<^verbatim>\<open>Set\<close>, and the imported requests whose id is
  in it are filtered out.
\<close>

definition skipDuplicates :: "bronze_record list \<Rightarrow> bronze_record list \<Rightarrow> bronze_record list" where
  "skipDuplicates existingRequests imported =
     (let existingIds = set (map b_id existingRequests)
      in filter (\<lambda>r. b_id r \<notin> existingIds) imported)"

definition rec_a :: bronze_record where
  "rec_a = \<lparr> b_id = ''req-1'', b_url = ''https://example.com/a'', b_method = ''GET'',
     b_domain = ''example.com'', b_status = 200, b_responseTime = 100,
     b_timestamp = 1700000000000, b_rawHeaders = [] \<rparr>"

definition rec_a' :: bronze_record where
  "rec_a' = \<lparr> b_id = ''req-1'', b_url = ''https://example.com/b'', b_method = ''POST'',
     b_domain = ''example.com'', b_status = 404, b_responseTime = 150,
     b_timestamp = 1700000000500, b_rawHeaders = [] \<rparr>"


section \<open>Properties of the collector\<close>

lemmas scen_defs = c_timed_def c_started_def c_partial_def c_dns_connect_def
  test_collector_def new_collector_def timing_full_def timing_dns_only_def
  timing_dns_connect_def timing_ssl_only_def no_timing_def captureRequestStart_def
  shouldCapture_def updateRequestTiming_def apply_timing_def fresh_metric_def
  getMetrics_def or0_def m_timed_def

lemma or0_eq: "or0 d = (if d = NaN then Fin 0 else d)"
  by (cases d) (auto simp: or0_def)

lemma stored_phase_eq: "or0_field v = stored_phase v"
  by (cases v rule: stored_phase.cases) (simp_all add: or0_eq)

lemma c_timed_get: "getMetrics ''req1'' c_timed = Some m_timed"
  by (simp add: scen_defs)

lemma shouldCapture_c_timed: "shouldCapture c_timed (1 / 2)"
  by (simp add: scen_defs)

lemma finalize_metric_fields:
  "endTime (finalize_metric e m) = e"
  "startTime (finalize_metric e m) = startTime m"
  "dns (finalize_metric e m) = Some (or0 (js_sub (dnsEnd m) (dnsStart m)))"
  "tcp (finalize_metric e m) =
     Some (or0 (js_sub (js_sub (connectEnd m) (connectStart m))
                       (js_sub (sslEnd m) (sslStart m))))"
  "ssl (finalize_metric e m) = Some (or0 (js_sub (sslEnd m) (sslStart m)))"
  "ttfb (finalize_metric e m) = Some (or0 (js_sub (receiveStart m) (sendEnd m)))"
  "download (finalize_metric e m) = Some (or0 (js_sub (receiveEnd m) (receiveStart m)))"
  "total_ms (finalize_metric e m) = or0 (js_sub e (startTime m))"
  by (simp_all add: finalize_metric_def Let_def)

lemma finalize_metric_idem: "finalize_metric e (finalize_metric e m) = finalize_metric e m"
  by (simp add: finalize_metric_def Let_def)


subsection \<open>finalizeRequest\<close>

text \<open>
  C1 (as amended). For every captured requestId and every assignment of the phase
  timestamps and of endTime, \<^verbatim>\<open>finalizeRequest\<close> returns a metric in which each
  sub-metric equals its timestamp difference (dns = dnsEnd - dnsStart,
  tcp = (connectEnd - connectStart) - (sslEnd - sslStart), ssl = sslEnd - sslStart,
  ttfb = receiveStart - sendEnd, download = receiveEnd - receiveStart,
  total = endTime - startTime) whenever that difference is not NaN, be it negative or
  infinite, and is \<open>0\<close> when the difference is NaN. The source clamps with
  \<^verbatim>\<open>|| 0\<close>, which replaces NaN (and \<open>0\<close> itself) only.
\<close>

theorem finalizeRequest_submetrics:
  assumes "getMetrics requestId c = Some m"
  shows "\<exists>m'. fst (finalizeRequest requestId e c) = Some m'
     \<and> dns m' = Some (let d = js_sub (dnsEnd m) (dnsStart m) in if d = NaN then Fin 0 else d)
     \<and> tcp m' = Some (let d = js_sub (js_sub (connectEnd m) (connectStart m))
                                     (js_sub (sslEnd m) (sslStart m))
                       in if d = NaN then Fin 0 else d)
     \<and> ssl m' = Some (let d = js_sub (sslEnd m) (sslStart m) in if d = NaN then Fin 0 else d)
     \<and> ttfb m' = Some (let d = js_sub (receiveStart m) (sendEnd m)
                        in if d = NaN then Fin 0 else d)
     \<and> download m' = Some (let d = js_sub (receiveEnd m) (receiveStart m)
                            in if d = NaN then Fin 0 else d)
     \<and> total_ms m' = (let d = js_sub e (startTime m) in if d = NaN then Fin 0 else d)"
  using assms
  by (simp add: finalizeRequest_def getMetrics_def finalize_metric_fields or0_eq Let_def)

text \<open>The values of the test \<^verbatim>\<open>should calculate timing breakdowns\<close>.\<close>

theorem finalizeRequest_submetrics_witness:
  "getMetrics ''req1'' c_timed = Some m_timed
   \<and> (\<exists>m'. fst (finalizeRequest ''req1'' (Fin 1450) c_timed) = Some m'
        \<and> dns m' = Some (Fin 50) \<and> tcp m' = Some (Fin 50) \<and> ssl m' = Some (Fin 50)
        \<and> ttfb m' = Some (Fin 200) \<and> download m' = Some (Fin 100)
        \<and> total_ms m' = Fin 450)"
  using finalizeRequest_submetrics [OF c_timed_get, of "Fin 1450"] c_timed_get
  by (simp add: m_timed_def)

text \<open>
  C1 as stated fails: after the partial update \<^verbatim>\<open>{ dnsStart: 100 }\<close> the stored
  \<^verbatim>\<open>dnsEnd\<close> is \<open>0\<close>, and \<^verbatim>\<open>finalizeRequest\<close> returns \<open>dns = -100\<close>, where the
  specification asks for \<open>0\<close>.
\<close>

theorem finalizeRequest_negative_counterexample:
  "map_option dnsStart (getMetrics ''req1'' c_partial) = Some (Fin 100)
   \<and> map_option dnsEnd (getMetrics ''req1'' c_partial) = Some (Fin 0)
   \<and> map_option dns (fst (finalizeRequest ''req1'' (Fin 1450) c_partial))
       = Some (Some (Fin (- 100)))
   \<and> spec_clamped (js_sub (Fin 0) (Fin 100)) = Fin 0
   \<and> \<not> js_le (Fin 0) (Fin (- 100))"
  by (simp add: scen_defs finalizeRequest_def finalize_metric_fields Let_def)

text \<open>
  C9. For a captured requestId, a second \<^verbatim>\<open>finalizeRequest\<close> with the same endTime
  returns the same metric and the same collector as the first, and after the first call
  \<^verbatim>\<open>getMetrics\<close> returns the finalized metric.
\<close>

theorem finalizeRequest_idempotent:
  assumes "getMetrics requestId c = Some m"
  shows "finalizeRequest requestId e (snd (finalizeRequest requestId e c))
           = finalizeRequest requestId e c
     \<and> fst (finalizeRequest requestId e c) \<noteq> None
     \<and> getMetrics requestId (snd (finalizeRequest requestId e c))
           = fst (finalizeRequest requestId e c)"
  using assms
  by (simp add: finalizeRequest_def getMetrics_def Let_def update_conv' finalize_metric_idem)

theorem finalizeRequest_idempotent_witness:
  "getMetrics ''req1'' c_timed = Some m_timed
   \<and> finalizeRequest ''req1'' (Fin 1450) (snd (finalizeRequest ''req1'' (Fin 1450) c_timed))
       = finalizeRequest ''req1'' (Fin 1450) c_timed
   \<and> fst (finalizeRequest ''req1'' (Fin 1450) c_timed) \<noteq> None
   \<and> getMetrics ''req1'' (snd (finalizeRequest ''req1'' (Fin 1450) c_timed))
       = fst (finalizeRequest ''req1'' (Fin 1450) c_timed)"
  using finalizeRequest_idempotent [OF c_timed_get, of "Fin 1450"] c_timed_get
  by simp


subsection \<open>updateRequestTiming\<close>

text \<open>
  C2 (as amended). For a known requestId and a timing object, \<^verbatim>\<open>updateRequestTiming\<close>
  stores every phase timestamp present in the update (a NaN as \<open>0\<close>) and resets every
  phase timestamp absent from the update to \<open>0\<close>; \<^verbatim>\<open>startTime\<close>, \<^verbatim>\<open>endTime\<close>,
  \<^verbatim>\<open>total\<close> and the sub-metrics are left unchanged, and so is every other request. For
  an unknown requestId the call is a no-op; it never throws.
\<close>

theorem updateRequestTiming_overwrites:
  "(getMetrics requestId c = None \<longrightarrow> updateRequestTiming requestId tm c = c)
   \<and> (\<forall>m. getMetrics requestId c = Some m \<longrightarrow>
        (\<exists>m'. getMetrics requestId (updateRequestTiming requestId (Timing t) c) = Some m'
           \<and> dnsStart m' = stored_phase (t_dnsStart t)
           \<and> dnsEnd m' = stored_phase (t_dnsEnd t)
           \<and> connectStart m' = stored_phase (t_connectStart t)
           \<and> connectEnd m' = stored_phase (t_connectEnd t)
           \<and> sslStart m' = stored_phase (t_sslStart t)
           \<and> sslEnd m' = stored_phase (t_sslEnd t)
           \<and> sendStart m' = stored_phase (t_sendStart t)
           \<and> sendEnd m' = stored_phase (t_sendEnd t)
           \<and> receiveStart m' = stored_phase (t_receiveStart t)
           \<and> receiveEnd m' = stored_phase (t_receiveEnd t)
           \<and> startTime m' = startTime m \<and> endTime m' = endTime m
           \<and> total_ms m' = total_ms m \<and> dns m' = dns m \<and> tcp m' = tcp m
           \<and> ssl m' = ssl m \<and> ttfb m' = ttfb m \<and> download m' = download m))
   \<and> (\<forall>k. k \<noteq> requestId \<longrightarrow>
        getMetrics k (updateRequestTiming requestId tm c) = getMetrics k c)"
  by (auto simp: updateRequestTiming_def getMetrics_def apply_timing_def stored_phase_eq
        update_conv' split: option.splits timing_arg.splits)

theorem updateRequestTiming_overwrites_witness:
  "getMetrics ''other'' c_dns_connect = None
   \<and> updateRequestTiming ''other'' (Timing timing_ssl_only) c_dns_connect = c_dns_connect
   \<and> getMetrics ''req1'' c_dns_connect \<noteq> None
   \<and> map_option sslStart
         (getMetrics ''req1''
            (updateRequestTiming ''req1'' (Timing timing_ssl_only) c_dns_connect))
       = Some (Fin 210)
   \<and> map_option startTime
         (getMetrics ''req1''
            (updateRequestTiming ''req1'' (Timing timing_ssl_only) c_dns_connect))
       = Some (Fin 1000)"
  using updateRequestTiming_overwrites
      [of "''other''" c_dns_connect "Timing timing_ssl_only" timing_ssl_only]
    updateRequestTiming_overwrites
      [of "''req1''" c_dns_connect "Timing timing_ssl_only" timing_ssl_only]
  by (auto simp: scen_defs)

text \<open>
  C2 as stated fails: \<^verbatim>\<open>dnsEnd\<close> is \<open>150\<close> after the update of the test
  \<^verbatim>\<open>should update timing information\<close>; a second update \<^verbatim>\<open>{ sslStart: 210 }\<close>, which
  has no \<^verbatim>\<open>dnsEnd\<close>, sets it to \<open>0\<close>.
\<close>

theorem updateRequestTiming_resets_counterexample:
  "map_option dnsEnd (getMetrics ''req1'' c_dns_connect) = Some (Fin 150)
   \<and> t_dnsEnd timing_ssl_only = None
   \<and> map_option dnsEnd
         (getMetrics ''req1''
            (updateRequestTiming ''req1'' (Timing timing_ssl_only) c_dns_connect))
       = Some (Fin 0)"
  by (simp add: scen_defs)

text \<open>
  C10. With \<^verbatim>\<open>null\<close> or \<^verbatim>\<open>undefined\<close> as timing, \<^verbatim>\<open>updateRequestTiming\<close> returns
  the collector unchanged, for a known and for an unknown requestId alike; and for every
  requestId and every timing argument the call returns a collector with the same
  configuration and the same keys (the function has no error branch: no statement of
  the source on this path throws).
\<close>

theorem updateRequestTiming_falsy_timing:
  "updateRequestTiming requestId Null c = c
   \<and> updateRequestTiming requestId Undefined c = c
   \<and> map fst (metrics (updateRequestTiming requestId tm c)) = map fst (metrics c)
   \<and> enabled (updateRequestTiming requestId tm c) = enabled c
   \<and> samplingRate (updateRequestTiming requestId tm c) = samplingRate c
   \<and> retentionPeriod (updateRequestTiming requestId tm c) = retentionPeriod c"
  by (auto simp: updateRequestTiming_def update_keys map_of_eq_None_iff
           split: option.splits timing_arg.splits)

theorem updateRequestTiming_falsy_timing_witness:
  "getMetrics ''req1'' c_timed = Some m_timed
   \<and> updateRequestTiming ''req1'' Null c_timed = c_timed
   \<and> updateRequestTiming ''req1'' Undefined c_timed = c_timed
   \<and> getMetrics ''req1'' (updateRequestTiming ''req1'' Null c_timed) = Some m_timed"
  using updateRequestTiming_falsy_timing [of "''req1''" c_timed Null] c_timed_get
  by simp


subsection \<open>captureRequestStart\<close>

text \<open>
  C8. For a requestId already in the collector, a second \<^verbatim>\<open>captureRequestStart\<close> that
  passes the sampling gate replaces the stored entry: \<^verbatim>\<open>startTime\<close> is the new
  timestamp, every phase timestamp, \<^verbatim>\<open>endTime\<close> and \<^verbatim>\<open>total\<close> are \<open>0\<close>, and the
  sub-metrics of an earlier \<^verbatim>\<open>finalizeRequest\<close> are gone; the keys of the map and every
  other entry stay as they were.
\<close>

theorem captureRequestStart_replaces:
  assumes "shouldCapture c rnd" and "getMetrics requestId c = Some old"
  shows "getMetrics requestId (captureRequestStart requestId t2 rnd c) =
           Some \<lparr> startTime = t2, dnsStart = Fin 0, dnsEnd = Fin 0, connectStart = Fin 0,
                  connectEnd = Fin 0, sslStart = Fin 0, sslEnd = Fin 0, sendStart = Fin 0,
                  sendEnd = Fin 0, receiveStart = Fin 0, receiveEnd = Fin 0, endTime = Fin 0,
                  total_ms = Fin 0, dns = None, tcp = None, ssl = None, ttfb = None,
                  download = None \<rparr>
     \<and> map fst (metrics (captureRequestStart requestId t2 rnd c)) = map fst (metrics c)
     \<and> (\<forall>k. k \<noteq> requestId \<longrightarrow>
            getMetrics k (captureRequestStart requestId t2 rnd c) = getMetrics k c)"
proof -
  from assms(2) have "requestId \<in> fst ` set (metrics c)"
    by (metis getMetrics_def map_of_eq_None_iff option.distinct(1))
  with assms(1) show ?thesis
    by (simp add: captureRequestStart_def getMetrics_def fresh_metric_def update_conv'
          update_keys)
qed

theorem captureRequestStart_replaces_witness:
  "shouldCapture c_timed (1 / 2)
   \<and> getMetrics ''req1'' c_timed = Some m_timed
   \<and> map_option startTime
        (getMetrics ''req1'' (captureRequestStart ''req1'' (Fin 2000) (1 / 2) c_timed))
       = Some (Fin 2000)
   \<and> map_option dnsEnd
        (getMetrics ''req1'' (captureRequestStart ''req1'' (Fin 2000) (1 / 2) c_timed))
       = Some (Fin 0)
   \<and> map fst (metrics (captureRequestStart ''req1'' (Fin 2000) (1 / 2) c_timed))
       = map fst (metrics c_timed)"
  using captureRequestStart_replaces [OF shouldCapture_c_timed c_timed_get, of "Fin 2000"]
    shouldCapture_c_timed c_timed_get
  by simp

lemma samplingRate_zero_positive_draw:
  assumes "samplingRate c = Fin 0" and "0 < rnd"
  shows "captureRequestStart requestId timestamp rnd c = c"
  using assms by (simp add: captureRequestStart_def shouldCapture_def)

text \<open>
  C4, at the input where the source departs from it. With \<^verbatim>\<open>enabled = true\<close> and
  \<^verbatim>\<open>samplingRate = 0\<close>, a draw \<^verbatim>\<open>Math.random() = 0\<close> passes the gate
  \<^verbatim>\<open>Math.random() * 100 <= samplingRate\<close>: \<^verbatim>\<open>captureRequestStart\<close> stores an entry,
  \<^verbatim>\<open>getMetrics\<close> returns it and \<^verbatim>\<open>finalizeRequest\<close> returns a metric. (For every
  positive draw nothing is stored: \<open>samplingRate_zero_positive_draw\<close>.)
\<close>

theorem samplingRate_zero_draw_zero:
  "shouldCapture low_sample_collector 0
   \<and> metrics low_sample_collector = []
   \<and> getMetrics ''req1'' (captureRequestStart ''req1'' (Fin 1000) 0 low_sample_collector)
       = Some (fresh_metric (Fin 1000))
   \<and> length (metrics (captureRequestStart ''req1'' (Fin 1000) 0 low_sample_collector)) = 1
   \<and> fst (finalizeRequest ''req1'' (Fin 1000)
            (captureRequestStart ''req1'' (Fin 1000) 0 low_sample_collector)) \<noteq> None"
  by (simp add: low_sample_collector_def new_collector_def shouldCapture_def
        captureRequestStart_def getMetrics_def finalizeRequest_def Let_def)


subsection \<open>cleanupOldMetrics\<close>

lemma map_of_cleanup_loop:
  "map_of (cleanup_loop now period es ms) k =
     (if \<exists>m. (k, m) \<in> set es \<and> js_gt (js_sub now (endTime m)) period then None
      else map_of ms k)"
proof (induction es arbitrary: ms)
  case Nil
  show ?case by simp
next
  case (Cons e es)
  obtain k' m' where e: "e = (k', m')" by (cases e)
  show ?case
    unfolding e by (auto simp: Cons.IH delete_conv')
qed

text \<open>
  What the sweep does, for a map with distinct keys: an entry is removed iff
  \<^verbatim>\<open>now - endTime > retentionPeriod\<close>, whatever \<^verbatim>\<open>endTime\<close> holds.
\<close>

lemma cleanupOldMetrics_removes_iff:
  assumes "distinct (map fst (metrics c))"
  shows "getMetrics k (cleanupOldMetrics now c) =
     (case getMetrics k c of
        None \<Rightarrow> None
      | Some m \<Rightarrow> if js_gt (js_sub now (endTime m)) (retentionPeriod c) then None else Some m)"
  using assms
  by (auto simp: getMetrics_def cleanupOldMetrics_def map_of_cleanup_loop
        split: option.splits dest: eq_key_imp_eq_value)

text \<open>An entry exactly at the boundary is retained.\<close>

lemma cleanupOldMetrics_boundary:
  assumes "distinct (map fst (metrics c))"
    and "getMetrics k c = Some m"
    and "endTime m = Fin t" and "retentionPeriod c = Fin p"
  shows "getMetrics k (cleanupOldMetrics (Fin (t + p)) c) = Some m"
  using assms by (simp add: cleanupOldMetrics_removes_iff)

text \<open>
  C3, at the input where the source departs from it: the scenario of the test
  \<^verbatim>\<open>should remove old metrics\<close>. The entry \<^verbatim>\<open>"recent-req"\<close> was captured at \<open>now\<close>
  and never finalized, so its \<^verbatim>\<open>endTime\<close> is the initial \<open>0\<close>; the sweep computes
  \<open>now - 0 = 1700000000000 > 604800000\<close> and removes it.
\<close>

theorem cleanupOldMetrics_unfinalized:
  "map_option endTime (getMetrics ''recent-req'' c_sweep) = Some (Fin 0)
   \<and> map_option total_ms (getMetrics ''recent-req'' c_sweep) = Some (Fin 0)
   \<and> js_sub sweep_now (Fin 0) = Fin 1700000000000
   \<and> retentionPeriod c_sweep = Fin 604800000
   \<and> getMetrics ''recent-req'' (cleanupOldMetrics sweep_now c_sweep) = None"
  by (simp add: c_sweep_def sweep_now_def sweep_old_def finalizeRequest_def scen_defs
        cleanupOldMetrics_def Let_def)


section \<open>Properties of the aggregation\<close>

lemma foldl_applyDelta:
  "foldl applyDelta g rs =
     \<lparr> g_totalRequests = g_totalRequests g + length rs,
       g_successCount = g_successCount g
          + length (filter (\<lambda>r. 200 \<le> status r \<and> status r < 300) rs),
       g_errorCount = g_errorCount g + length (filter (\<lambda>r. 400 \<le> status r) rs),
       g_sumResponseTime = foldl (\<lambda>sum r. sum + responseTime r) (g_sumResponseTime g) rs \<rparr>"
  by (induction rs arbitrary: g) (auto simp: applyDelta_def)

text \<open>
  On every list of requests the modelled GoldFact row agrees with the computation of
  the test.
\<close>

lemma gold_matches_tests:
  "g_totalRequests (foldl applyDelta empty_fact rs) = totalRequests rs"
  "g_successCount (foldl applyDelta empty_fact rs) = successfulRequests rs"
  "g_avgResponseTime (foldl applyDelta empty_fact rs) = avgResponseTime rs"
  by (simp_all add: foldl_applyDelta empty_fact_def totalRequests_def successfulRequests_def
        g_avgResponseTime_def avgResponseTime_def)

text \<open>
  C5. For the three requests with statuses 200, 200, 404 and response times 100, 200,
  150, the computation of the test gives \<open>totalRequests = 3\<close>, two successful requests
  and \<open>avgResponseTime = 150\<close>; the GoldFact row built by \<^verbatim>\<open>applyDelta\<close> has
  \<open>totalRequests = 3\<close>, \<open>successCount = 2\<close>, \<open>errorCount = 1\<close>,
  \<open>sumResponseTime = 450\<close>, and its derived \<open>avgResponseTime\<close>, the quotient of
  \<open>sumResponseTime\<close> by \<open>totalRequests\<close>, is \<open>150\<close>.
\<close>

theorem scenario_aggregates:
  "totalRequests scenario_requests = 3
   \<and> successfulRequests scenario_requests = 2
   \<and> avgResponseTime scenario_requests = Fin 150
   \<and> g_totalRequests (foldl applyDelta empty_fact scenario_requests) = 3
   \<and> g_successCount (foldl applyDelta empty_fact scenario_requests) = 2
   \<and> g_errorCount (foldl applyDelta empty_fact scenario_requests) = 1
   \<and> g_sumResponseTime (foldl applyDelta empty_fact scenario_requests) = 450
   \<and> g_avgResponseTime (foldl applyDelta empty_fact scenario_requests) = Fin 150
   \<and> g_avgResponseTime (foldl applyDelta empty_fact scenario_requests)
       = js_div (Fin (g_sumResponseTime (foldl applyDelta empty_fact scenario_requests)))
                (Fin (of_nat (g_totalRequests (foldl applyDelta empty_fact scenario_requests))))"
  by (simp add: scenario_requests_def totalRequests_def successfulRequests_def
        avgResponseTime_def applyDelta_def empty_fact_def g_avgResponseTime_def)


section \<open>Properties of the capture filter\<close>

lemma includes_arr_set: "includes_arr xs x \<longleftrightarrow> x \<in> set xs"
  by (induction xs) auto

text \<open>
  C6. Capture is allowed iff the domain is not in \<^verbatim>\<open>excludeDomains\<close>, and
  \<^verbatim>\<open>includeDomains\<close> is empty or holds the domain, and the type is not in
  \<^verbatim>\<open>excludeTypes\<close>, and \<^verbatim>\<open>includeTypes\<close> is empty or holds the type; a domain or a
  type that is in both its include list and its exclude list is denied.
\<close>

theorem captureAllowed_iff:
  "(captureAllowed cfg req \<longleftrightarrow>
      domain req \<notin> set (excludeDomains cfg)
      \<and> (includeDomains cfg = [] \<or> domain req \<in> set (includeDomains cfg))
      \<and> type_r req \<notin> set (excludeTypes cfg)
      \<and> (includeTypes cfg = [] \<or> type_r req \<in> set (includeTypes cfg)))
   \<and> (domain req \<in> set (includeDomains cfg) \<and> domain req \<in> set (excludeDomains cfg)
        \<longrightarrow> \<not> captureAllowed cfg req)
   \<and> (type_r req \<in> set (includeTypes cfg) \<and> type_r req \<in> set (excludeTypes cfg)
        \<longrightarrow> \<not> captureAllowed cfg req)"
  by (auto simp: captureAllowed_def includes_arr_set)

theorem captureAllowed_iff_witness:
  "domain \<lparr>domain = ''example.com'', type_r = ''script''\<rparr> \<in> set (includeDomains cfg_both)
   \<and> domain \<lparr>domain = ''example.com'', type_r = ''script''\<rparr> \<in> set (excludeDomains cfg_both)
   \<and> \<not> captureAllowed cfg_both \<lparr>domain = ''example.com'', type_r = ''script''\<rparr>
   \<and> type_r \<lparr>domain = ''other.org'', type_r = ''fetch''\<rparr> \<in> set (includeTypes cfg_both)
   \<and> type_r \<lparr>domain = ''other.org'', type_r = ''fetch''\<rparr> \<in> set (excludeTypes cfg_both)
   \<and> \<not> captureAllowed cfg_both \<lparr>domain = ''other.org'', type_r = ''fetch''\<rparr>"
  using captureAllowed_iff [of cfg_both "\<lparr>domain = ''example.com'', type_r = ''script''\<rparr>"]
    captureAllowed_iff [of cfg_both "\<lparr>domain = ''other.org'', type_r = ''fetch''\<rparr>"]
  by (simp add: cfg_both_def)


section \<open>Properties of the Bronze store\<close>

lemma insert_bronze_distinct:
  assumes "distinct (map b_id store)" and "insert_bronze ok r store = Inr store'"
  shows "distinct (map b_id store')"
  using assms by (auto simp: insert_bronze_def includes_arr_set split: if_splits)

lemma count_one_of_distinct:
  "distinct (map f xs) \<Longrightarrow> x \<in> set xs \<Longrightarrow> length (filter (\<lambda>y. f y = f x) xs) = 1"
proof (induction xs)
  case Nil
  then show ?case by simp
next
  case (Cons a xs)
  show ?case
  proof (cases "f a = f x")
    case True
    from Cons.prems(1) have "f a \<notin> f ` set xs" by simp
    then have "\<forall>y\<in>set xs. f y \<noteq> f a" by (metis imageI)
    then have "filter (\<lambda>y. f y = f a) xs = []"
      by (simp add: filter_empty_conv)
    with True show ?thesis by simp
  next
    case False
    with Cons show ?thesis by auto
  qed
qed

text \<open>The duplicate filter of the import test keeps no id that is already stored.\<close>

lemma skipDuplicates_props:
  "length (skipDuplicates existing imported) \<le> length imported"
  "b_id ` set (skipDuplicates existing imported) \<inter> b_id ` set existing = {}"
  by (auto simp: skipDuplicates_def)

text \<open>
  C7. In a store whose ids are distinct, once a record has been inserted, inserting a
  record with the same id (the same record or another one) succeeds and leaves the
  store as it is: no row is added, the stored row is untouched, exactly one row has
  that id, and the result is not an error. (The storage layer is taken to work for
  both calls.)
\<close>

theorem insert_bronze_duplicate:
  assumes "distinct (map b_id store)"
    and "insert_bronze True r store = Inr store1"
    and "b_id r' = b_id r"
  shows "insert_bronze True r' store1 = Inr store1
     \<and> length (filter (\<lambda>x. b_id x = b_id r) store1) = 1"
proof -
  from assms(2) have mem: "b_id r \<in> set (map b_id store1)"
    by (auto simp: insert_bronze_def includes_arr_set split: if_splits)
  from assms(1,2) have d: "distinct (map b_id store1)"
    by (rule insert_bronze_distinct)
  from mem obtain x where x: "x \<in> set store1" "b_id x = b_id r" by auto
  from count_one_of_distinct [OF d x(1)] x(2)
  have "length (filter (\<lambda>y. b_id y = b_id r) store1) = 1" by simp
  with mem assms(3) show ?thesis
    by (simp add: insert_bronze_def includes_arr_set)
qed

theorem insert_bronze_duplicate_witness:
  "distinct (map b_id ([] :: bronze_record list))
   \<and> insert_bronze True rec_a [] = Inr [rec_a]
   \<and> b_id rec_a' = b_id rec_a
   \<and> insert_bronze True rec_a' [rec_a] = Inr [rec_a]
   \<and> length (filter (\<lambda>x. b_id x = b_id rec_a) [rec_a]) = 1"
proof -
  have h1: "distinct (map b_id ([] :: bronze_record list))" by simp
  have h2: "insert_bronze True rec_a [] = Inr [rec_a]" by (simp add: insert_bronze_def)
  have h3: "b_id rec_a' = b_id rec_a" by (simp add: rec_a_def rec_a'_def)
  from insert_bronze_duplicate [OF h1 h2 h3] h1 h2 h3 show ?thesis by simp
qed

end
